theory Spec2Isabelle
  imports Complex_Main "HOL-Library.Multiset"
begin

section \<open>Strings of the host language\<close>

text \<open>
  The component is TypeScript. Its strings are sequences of UTF-16 code units; the
  model uses \<open>string\<close>, reading a \<open>char\<close> as the code unit with the same number
  (U+0000 to U+00FF). Code units above U+00FF, among them the surrogates, are outside
  this type. The strings that reach the component state are ASCII: the sanitised value
  of a numeric input element, the output of \<open>Number.prototype.toFixed\<close>, and the
  names of the three checkboxes.
\<close>

text \<open>\<open>Array.prototype.join\<close> on an array of strings.\<close>

fun join :: "string \<Rightarrow> string list \<Rightarrow> string" where
  "join sep [] = []"
| "join sep [x] = x"
| "join sep (x # y # ys) = x @ sep @ join sep (y # ys)"

text \<open>
  \<open>encodeURIComponent\<close> (ECMA-262, 19.2.6): every code unit outside the unreserved set
  \<open>A-Z a-z 0-9 - _ . ! ~ * ' ( )\<close> is replaced by the percent-escapes of the octets of
  its UTF-8 encoding, with upper-case hexadecimal digits. A code unit below U+0080 is one
  octet, one from U+0080 to U+00FF is two.
\<close>

definition uriUnreserved :: "char \<Rightarrow> bool" where
  "uriUnreserved c \<longleftrightarrow>
     c \<in> set ''ABCDEFGHIJKLMNOPQRSTUVWXYZabcdefghijklmnopqrstuvwxyz0123456789-_.!~*()''
     \<or> c = CHR 0x27"

definition hexDigit :: "nat \<Rightarrow> char" where
  "hexDigit n = ''0123456789ABCDEF'' ! (n mod 16)"

definition percentOctet :: "nat \<Rightarrow> string" where
  "percentOctet b = [CHR ''%'', hexDigit (b div 16), hexDigit (b mod 16)]"

definition utf8Octets :: "nat \<Rightarrow> nat list" where
  "utf8Octets u = (if u < 128 then [u] else [192 + u div 64, 128 + u mod 64])"

definition encodeUnit :: "char \<Rightarrow> string" where
  "encodeUnit c =
     (if uriUnreserved c then [c] else concat (map percentOctet (utf8Octets (of_char c))))"

definition encodeURIComponent :: "string \<Rightarrow> string" where
  "encodeURIComponent s = concat (map encodeUnit s)"

section \<open>Component state\<close>

text \<open>
  \<open>IsroDataFilterComponentState\<close>. The object \<open>selectedProducts\<close> is an association
  list with its keys in the order \<open>Object.keys\<close> enumerates them.
\<close>

record IsroDataFilterComponentState =
  top :: string
  bottom :: string
  left :: string
  right :: string
  selectedProducts :: "(string \<times> bool) list"
  drawingMode :: bool

text \<open>The state assigned in the constructor.\<close>

definition initialState :: IsroDataFilterComponentState where
  "initialState =
     \<lparr>top = '''', bottom = '''', left = '''', right = '''',
      selectedProducts = [(''tmc1'', True), (''tmc2'', True), (''ohrc'', True)],
      drawingMode = False\<rparr>"

section \<open>Building the query: \<open>queryGeoServer\<close>\<close>

datatype action = Alert string | Fetch string

definition aoiAlert :: string where
  "aoiAlert = ''Please provide all coordinate values for the area of interest.''"

definition productAlert :: string where
  "productAlert = ''Please select at least one data product.''"

definition geoServerUrl :: string where
  "geoServerUrl = ''http://your-geoserver-url/geoserver/wfs''"

text \<open>The template literal of the bounding polygon, in well-known text.\<close>

definition wktPolygon :: "IsroDataFilterComponentState \<Rightarrow> string" where
  "wktPolygon st =
     ''POLYGON(('' @ left st @ '' '' @ bottom st @ '', '' @ right st @ '' '' @ bottom st
       @ '', '' @ right st @ '' '' @ top st @ '', '' @ left st @ '' '' @ top st
       @ '', '' @ left st @ '' '' @ bottom st @ ''))''"

text \<open>
  \<open>Object.keys(selectedProducts).filter(key => selectedProducts[key])\<close>: a property
  read yields the flag stored under the key, and a missing key is falsy.
\<close>

definition selectedWorkspaces :: "(string \<times> bool) list \<Rightarrow> string list" where
  "selectedWorkspaces sp = filter (\<lambda>key. map_of sp key = Some True) (map fst sp)"

definition typeNames :: "string list \<Rightarrow> string" where
  "typeNames ws = join '','' (map (\<lambda>w. w @ '':datapoints'') ws)"

definition cqlFilter :: "IsroDataFilterComponentState \<Rightarrow> string" where
  "cqlFilter st = ''INTERSECTS(geom, '' @ wktPolygon st @ '')''"

definition wfsUrl :: "IsroDataFilterComponentState \<Rightarrow> string" where
  "wfsUrl st =
     geoServerUrl @ ''?service=WFS&version=1.1.0&request=GetFeature&typeName=''
       @ typeNames (selectedWorkspaces (selectedProducts st))
       @ ''&cql_filter='' @ encodeURIComponent (cqlFilter st)
       @ ''&outputFormat=application/json''"

text \<open>
  The handler reads the state, never writes it, and ends in one of three ways: an alert
  for a missing coordinate, an alert for an empty selection, or the call of \<open>fetch\<close>
  with the request URL. It returns the state next to that action.
\<close>

definition queryGeoServer ::
  "IsroDataFilterComponentState \<Rightarrow> IsroDataFilterComponentState \<times> action" where
  "queryGeoServer st =
     (if top st = '''' \<or> bottom st = '''' \<or> left st = '''' \<or> right st = ''''
      then (st, Alert aoiAlert)
      else if length (selectedWorkspaces (selectedProducts st)) = 0
      then (st, Alert productAlert)
      else (st, Fetch (wfsUrl st)))"

text \<open>The state of scenario B of the specification.\<close>

definition scenarioB :: IsroDataFilterComponentState where
  "scenarioB =
     \<lparr>top = ''48.9'', bottom = ''48.8'', left = ''2.33'', right = ''2.35'',
      selectedProducts = [(''tmc1'', True), (''tmc2'', False), (''ohrc'', True)],
      drawingMode = False\<rparr>"

section \<open>Numbers and their fixed-point text\<close>

text \<open>
  The latitudes and longitudes are finite IEEE doubles. The component only compares them
  (\<open>Math.max\<close>, \<open>Math.min\<close>) and prints them (\<open>toFixed\<close>), both of which ECMA-262
  defines on the exact mathematical value, so a number is modelled by that value, a
  rational. \<open>NaN\<close> and the infinities are not modelled.
\<close>

type_synonym number = rat

text \<open>
  \<open>Math.max(x, ...xs)\<close> and \<open>Math.min(x, ...xs)\<close> of at least one argument. The call
  sites spread a list that was tested to be non-empty.
\<close>

definition Math_max :: "number \<Rightarrow> number list \<Rightarrow> number" where
  "Math_max x xs = fold max xs x"

definition Math_min :: "number \<Rightarrow> number list \<Rightarrow> number" where
  "Math_min x xs = fold min xs x"

definition digitChar :: "nat \<Rightarrow> char" where
  "digitChar d = ''0123456789'' ! (d mod 10)"

text \<open>The digits of the decimal representation of \<open>n\<close>, with no leading zero.\<close>

fun digitsOf :: "nat \<Rightarrow> string" where
  "digitsOf n = (if n < 10 then [digitChar n] else digitsOf (n div 10) @ [digitChar (n mod 10)])"

declare digitsOf.simps [simp del]

text \<open>
  \<open>Number.prototype.toFixed(f)\<close> (ECMA-262, 21.1.3.3) for \<open>f \<le> 100\<close>; the component
  calls it with 6. A negative number is printed as a minus sign and its magnitude. Below
  \<open>10\<^sup>2\<^sup>1\<close> the magnitude \<open>x\<close> becomes the integer \<open>n\<close> with \<open>n / 10\<^sup>f\<close> nearest to \<open>x\<close>, the
  larger one on a tie, written with at least one digit before the point and exactly \<open>f\<close>
  after it. From \<open>10\<^sup>2\<^sup>1\<close> on the standard prints the magnitude with \<open>Number::toString\<close>
  in exponent notation; that function is the parameter \<open>toStr\<close>.
\<close>

definition toFixed :: "(number \<Rightarrow> string) \<Rightarrow> nat \<Rightarrow> number \<Rightarrow> string" where
  "toFixed toStr f x0 =
     (let s = (if x0 < 0 then ''-'' else '''');
          x = \<bar>x0\<bar>
      in if 10 ^ 21 \<le> x then s @ toStr x
         else
           let n = nat \<lfloor>x * 10 ^ f + 1 / 2\<rfloor>;
               m = digitsOf n
           in if f \<noteq> 0
              then
                let m1 = (if length m \<le> f then replicate (f + 1 - length m) (CHR ''0'') @ m else m);
                    k = length m1
                in s @ take (k - f) m1 @ ''.'' @ drop (k - f) m1
              else s @ m)"

section \<open>Reducing a drawing to a bounding box: \<open>onDrawingUpdated\<close>\<close>

text \<open>
  A point entity of the drawing is represented by what the Cesium calls of the handler
  yield for it: \<open>None\<close> when its position property has no value at the current time,
  otherwise the latitude and the longitude of the position in degrees.
\<close>

type_synonym entity = "(number \<times> number) option"

text \<open>The \<open>forEach\<close> loop that pushes onto \<open>lats\<close> and \<open>lons\<close>.\<close>

fun forEachEntity :: "entity list \<Rightarrow> number list \<times> number list \<Rightarrow> number list \<times> number list" where
  "forEachEntity [] acc = acc"
| "forEachEntity (None # es) acc = forEachEntity es acc"
| "forEachEntity (Some (lat, lon) # es) (lats, lons) = forEachEntity es (lats @ [lat], lons @ [lon])"

text \<open>
  The handler takes the \<open>closeLoop\<close> flag of the drawing and the point entities. It
  returns the state and whether it called \<open>userDrawing.endDrawing()\<close>. The pattern of
  two non-empty lists is the test \<open>lats.length && lons.length\<close>.
\<close>

definition onDrawingUpdated ::
  "(number \<Rightarrow> string) \<Rightarrow> bool \<Rightarrow> entity list \<Rightarrow> IsroDataFilterComponentState
     \<Rightarrow> IsroDataFilterComponentState \<times> bool" where
  "onDrawingUpdated toStr closeLoop values st =
     (if closeLoop \<and> 3 \<le> length values
      then
        (case forEachEntity values ([], []) of
           (lat # lats, lon # lons) \<Rightarrow>
             (st\<lparr>top := toFixed toStr 6 (Math_max lat lats),
                 bottom := toFixed toStr 6 (Math_min lat lats),
                 left := toFixed toStr 6 (Math_min lon lons),
                 right := toFixed toStr 6 (Math_max lon lons),
                 drawingMode := False\<rparr>, True)
         | _ \<Rightarrow> (st, False))
      else (st, False))"

definition activateDrawing :: "IsroDataFilterComponentState \<Rightarrow> IsroDataFilterComponentState" where
  "activateDrawing st = st\<lparr>drawingMode := True\<rparr>"

definition onDrawingCleanUp :: "IsroDataFilterComponentState \<Rightarrow> IsroDataFilterComponentState" where
  "onDrawingCleanUp st = st\<lparr>drawingMode := False\<rparr>"

section \<open>Editing the state by hand\<close>

text \<open>The four inputs that \<open>render\<close> wires to \<open>handleInputChange\<close>, by their \<open>name\<close>.\<close>

datatype coordinateInput = TopInput | BottomInput | LeftInput | RightInput

fun handleInputChange ::
  "coordinateInput \<Rightarrow> string \<Rightarrow> IsroDataFilterComponentState \<Rightarrow> IsroDataFilterComponentState" where
  "handleInputChange TopInput v st = st\<lparr>top := v\<rparr>"
| "handleInputChange BottomInput v st = st\<lparr>bottom := v\<rparr>"
| "handleInputChange LeftInput v st = st\<lparr>left := v\<rparr>"
| "handleInputChange RightInput v st = st\<lparr>right := v\<rparr>"

text \<open>
  Writing a property of an object. An existing key keeps its place. A new key goes to
  the end, unless it is an array index (a canonical decimal numeral below \<open>2\<^sup>3\<^sup>2 - 1\<close>):
  those are enumerated first, in ascending order.
\<close>

definition isDigit :: "char \<Rightarrow> bool" where
  "isDigit c \<longleftrightarrow> 48 \<le> (of_char c :: nat) \<and> (of_char c :: nat) \<le> 57"

definition digitVal :: "char \<Rightarrow> nat" where
  "digitVal c = of_char c - 48"

definition natOfDigits :: "string \<Rightarrow> nat" where
  "natOfDigits ds = foldl (\<lambda>a c. 10 * a + digitVal c) 0 ds"

definition isArrayIndex :: "string \<Rightarrow> bool" where
  "isArrayIndex k \<longleftrightarrow>
     (case k of
        [] \<Rightarrow> False
      | c # cs \<Rightarrow> list_all isDigit k \<and> (c \<noteq> CHR ''0'' \<or> cs = []) \<and> natOfDigits k < 2 ^ 32 - 1)"

definition keyBefore :: "string \<Rightarrow> string \<Rightarrow> bool" where
  "keyBefore k k' \<longleftrightarrow>
     isArrayIndex k \<and> (if isArrayIndex k' then natOfDigits k < natOfDigits k' else True)"

fun insertKey :: "string \<Rightarrow> bool \<Rightarrow> (string \<times> bool) list \<Rightarrow> (string \<times> bool) list" where
  "insertKey k v [] = [(k, v)]"
| "insertKey k v ((k', v') # ps) =
     (if keyBefore k k' then (k, v) # (k', v') # ps else (k', v') # insertKey k v ps)"

definition setProperty :: "string \<Rightarrow> bool \<Rightarrow> (string \<times> bool) list \<Rightarrow> (string \<times> bool) list" where
  "setProperty k v ps =
     (if k \<in> set (map fst ps)
      then map (\<lambda>(k', v'). if k' = k then (k', v) else (k', v')) ps
      else insertKey k v ps)"

text \<open>\<open>{...prevState.selectedProducts, [name]: checked}\<close> replaces the selection.\<close>

definition handleProductChange ::
  "string \<Rightarrow> bool \<Rightarrow> IsroDataFilterComponentState \<Rightarrow> IsroDataFilterComponentState" where
  "handleProductChange name checked prevState =
     prevState\<lparr>selectedProducts := setProperty name checked (selectedProducts prevState)\<rparr>"

section \<open>The response: \<open>fetch\<close> continuation and \<open>addDataToWorkbench\<close>\<close>

datatype jsonValue =
    JNull
  | JBool bool
  | JNumber number
  | JString string
  | JArray "jsonValue list"
  | JObject "(string \<times> jsonValue) list"

record dataItem =
  name :: string
  type :: string
  data :: jsonValue
  isEnabled :: bool

datatype effect = AddModel dataItem | ConsoleError string string

text \<open>
  \<open>addDataToWorkbench\<close> builds the catalog item and hands it to \<open>addModel\<close> of the
  user-added data group.
\<close>

definition addDataToWorkbench :: "jsonValue \<Rightarrow> effect" where
  "addDataToWorkbench geoJsonData =
     AddModel \<lparr>name = ''Filtered Data'', type = ''geojson'', data = geoJsonData, isEnabled = True\<rparr>"

text \<open>
  What \<open>fetch\<close> settles with. The promise rejects with a cause when the transport
  fails. For every HTTP response it is fulfilled, whatever the status; \<open>json\<close> is what
  \<open>response.json()\<close> settles with: the parsed body, or the cause of its rejection when
  the body is not JSON.
\<close>

record response =
  status :: nat
  json :: "string + jsonValue"

datatype fetched = Rejected string | Fulfilled response

text \<open>\<open>response.ok\<close>, which the handler never reads.\<close>

definition ok :: "response \<Rightarrow> bool" where
  "ok r \<longleftrightarrow> 200 \<le> status r \<and> status r \<le> 299"

text \<open>The chain \<open>.then(response => response.json()).then(...).catch(...)\<close>.\<close>

definition fetchSettled :: "fetched \<Rightarrow> effect" where
  "fetchSettled f =
     (case f of
        Rejected error \<Rightarrow> ConsoleError ''Error querying GeoServer:'' error
      | Fulfilled response \<Rightarrow>
          (case json response of
             Inl error \<Rightarrow> ConsoleError ''Error querying GeoServer:'' error
           | Inr geoJsonData \<Rightarrow> addDataToWorkbench geoJsonData))"

section \<open>Runs of the component\<close>

text \<open>
  The events that reach the component, each with what it carries. \<open>activate\<close> and
  \<open>deactivate\<close> only call the drawing, whose callbacks are the events
  \<open>DrawingUpdated\<close> and \<open>DrawingCleanUp\<close>.
\<close>

datatype event =
    InputChange coordinateInput string
  | ProductChange string bool
  | ActivateDrawing
  | DrawingUpdated bool "entity list"
  | DrawingCleanUp
  | QueryGeoServer

fun handle :: "(number \<Rightarrow> string) \<Rightarrow> event \<Rightarrow> IsroDataFilterComponentState \<Rightarrow> IsroDataFilterComponentState" where
  "handle toStr (InputChange i v) st = handleInputChange i v st"
| "handle toStr (ProductChange k b) st = handleProductChange k b st"
| "handle toStr ActivateDrawing st = activateDrawing st"
| "handle toStr (DrawingUpdated c es) st = fst (onDrawingUpdated toStr c es st)"
| "handle toStr DrawingCleanUp st = onDrawingCleanUp st"
| "handle toStr QueryGeoServer st = fst (queryGeoServer st)"

definition run :: "(number \<Rightarrow> string) \<Rightarrow> event list \<Rightarrow> IsroDataFilterComponentState \<Rightarrow> IsroDataFilterComponentState" where
  "run toStr evs st = fold (handle toStr) evs st"

section \<open>Reading a decimal numeral\<close>

text \<open>
  The value of a text of the form \<open>-?digits(.digits)?\<close>, used to state what the stored
  coordinate texts denote.
\<close>

definition readDecimal :: "string \<Rightarrow> rat option" where
  "readDecimal s =
     (let neg = (case s of c # _ \<Rightarrow> c = CHR ''-'' | [] \<Rightarrow> False);
          body = (if neg then tl s else s);
          ip = takeWhile isDigit body;
          rest = dropWhile isDigit body;
          sign = (if neg then - 1 else 1)
      in if ip = [] then None
         else
           (case rest of
              [] \<Rightarrow> Some (sign * of_nat (natOfDigits ip))
            | c # fp \<Rightarrow>
                if c = CHR ''.'' \<and> fp \<noteq> [] \<and> list_all isDigit fp
                then Some (sign * of_nat (natOfDigits (ip @ fp)) / 10 ^ length fp)
                else None))"

text \<open>The drawing of scenario A of the specification, as (latitude, longitude).\<close>

definition scenarioA :: "entity list" where
  "scenarioA = [Some (10, 10), Some (10, 20), Some (20, 20), Some (20, 10)]"

text \<open>
  Rounding to six decimal places, halves away from zero: what the coordinate texts are
  compared with.
\<close>

definition round6 :: "rat \<Rightarrow> rat" where
  "round6 x = (if x < 0 then - 1 else 1) * of_int \<lfloor>\<bar>x\<bar> * 10 ^ 6 + 1 / 2\<rfloor> / 10 ^ 6"

section \<open>The request URL\<close>

lemma selectedWorkspaces_empty_iff:
  "selectedWorkspaces sp = [] \<longleftrightarrow> (\<forall>k. map_of sp k \<noteq> Some True)"
proof
  assume e: "selectedWorkspaces sp = []"
  show "\<forall>k. map_of sp k \<noteq> Some True"
  proof (intro allI notI)
    fix k assume s: "map_of sp k = Some True"
    then have "k \<in> set (map fst sp)"
      by (metis map_of_eq_None_iff option.distinct(1) set_map)
    with s have "k \<in> set (selectedWorkspaces sp)"
      by (simp add: selectedWorkspaces_def)
    with e show False by simp
  qed
next
  assume "\<forall>k. map_of sp k \<noteq> Some True"
  then show "selectedWorkspaces sp = []"
    by (simp add: selectedWorkspaces_def)
qed

lemma alerts_differ: "aoiAlert \<noteq> productAlert"
  by (simp add: aoiAlert_def productAlert_def)

lemma queryGeoServer_fetch:
  assumes "top st \<noteq> ''''" and "bottom st \<noteq> ''''" and "left st \<noteq> ''''" and "right st \<noteq> ''''"
    and "map_of (selectedProducts st) k = Some True"
  shows "queryGeoServer st = (st, Fetch (wfsUrl st))"
proof -
  from assms(5) have "selectedWorkspaces (selectedProducts st) \<noteq> []"
    by (auto simp: selectedWorkspaces_empty_iff)
  with assms(1-4) show ?thesis
    by (simp add: queryGeoServer_def)
qed

text \<open>
  C1. In a state whose four coordinate texts are non-empty and in which some product id
  is selected, the handler calls \<open>fetch\<close> with exactly
  \<open><endpoint>?service=WFS&version=1.1.0&request=GetFeature&typeName=<t>&cql_filter=<f>&outputFormat=application/json\<close>:
  \<open><t>\<close> joins \<open><id>:datapoints\<close> with commas over the selected ids in the order
  \<open>Object.keys\<close> enumerates the selection, and \<open><f>\<close> is \<open>encodeURIComponent\<close> of
  \<open>INTERSECTS(geom, POLYGON((left bottom, right bottom, right top, left top, left bottom)))\<close>.
  For the state of scenario B the type names are \<open>tmc1:datapoints,ohrc:datapoints\<close>, the
  ring is \<open>POLYGON((2.33 48.8, 2.35 48.8, 2.35 48.9, 2.33 48.9, 2.33 48.8))\<close>, and the
  URL is the one written out below.
\<close>

theorem queryGeoServer_request_url:
  "(top st \<noteq> '''' \<and> bottom st \<noteq> '''' \<and> left st \<noteq> '''' \<and> right st \<noteq> ''''
      \<and> (\<exists>k. map_of (selectedProducts st) k = Some True)
    \<longrightarrow> queryGeoServer st =
        (st, Fetch (geoServerUrl
           @ ''?service=WFS&version=1.1.0&request=GetFeature&typeName=''
           @ join '',''
               (map (\<lambda>k. k @ '':datapoints'')
                 (filter (\<lambda>k. map_of (selectedProducts st) k = Some True)
                   (map fst (selectedProducts st))))
           @ ''&cql_filter=''
           @ encodeURIComponent
               (''INTERSECTS(geom, POLYGON((''
                  @ left st @ '' '' @ bottom st @ '', ''
                  @ right st @ '' '' @ bottom st @ '', ''
                  @ right st @ '' '' @ top st @ '', ''
                  @ left st @ '' '' @ top st @ '', ''
                  @ left st @ '' '' @ bottom st @ '')))'')
           @ ''&outputFormat=application/json'')))
   \<and> geoServerUrl = ''http://your-geoserver-url/geoserver/wfs''
   \<and> typeNames (selectedWorkspaces (selectedProducts scenarioB)) = ''tmc1:datapoints,ohrc:datapoints''
   \<and> wktPolygon scenarioB = ''POLYGON((2.33 48.8, 2.35 48.8, 2.35 48.9, 2.33 48.9, 2.33 48.8))''
   \<and> queryGeoServer scenarioB =
       (scenarioB, Fetch ''http://your-geoserver-url/geoserver/wfs?service=WFS&version=1.1.0&request=GetFeature&typeName=tmc1:datapoints,ohrc:datapoints&cql_filter=INTERSECTS(geom%2C%20POLYGON((2.33%2048.8%2C%202.35%2048.8%2C%202.35%2048.9%2C%202.33%2048.9%2C%202.33%2048.8)))&outputFormat=application/json'')"
proof (intro conjI impI)
  assume a: "top st \<noteq> '''' \<and> bottom st \<noteq> '''' \<and> left st \<noteq> '''' \<and> right st \<noteq> ''''
      \<and> (\<exists>k. map_of (selectedProducts st) k = Some True)"
  then obtain k where "map_of (selectedProducts st) k = Some True" by blast
  with a have "queryGeoServer st = (st, Fetch (wfsUrl st))"
    by (simp add: queryGeoServer_fetch)
  then show "queryGeoServer st =
        (st, Fetch (geoServerUrl
           @ ''?service=WFS&version=1.1.0&request=GetFeature&typeName=''
           @ join '',''
               (map (\<lambda>k. k @ '':datapoints'')
                 (filter (\<lambda>k. map_of (selectedProducts st) k = Some True)
                   (map fst (selectedProducts st))))
           @ ''&cql_filter=''
           @ encodeURIComponent
               (''INTERSECTS(geom, POLYGON((''
                  @ left st @ '' '' @ bottom st @ '', ''
                  @ right st @ '' '' @ bottom st @ '', ''
                  @ right st @ '' '' @ top st @ '', ''
                  @ left st @ '' '' @ top st @ '', ''
                  @ left st @ '' '' @ bottom st @ '')))'')
           @ ''&outputFormat=application/json''))"
    by (simp add: wfsUrl_def typeNames_def selectedWorkspaces_def cqlFilter_def wktPolygon_def)
next
  show "geoServerUrl = ''http://your-geoserver-url/geoserver/wfs''"
    by (simp add: geoServerUrl_def)
next
  show "typeNames (selectedWorkspaces (selectedProducts scenarioB)) = ''tmc1:datapoints,ohrc:datapoints''"
    by (simp add: typeNames_def selectedWorkspaces_def scenarioB_def)
next
  show "wktPolygon scenarioB = ''POLYGON((2.33 48.8, 2.35 48.8, 2.35 48.9, 2.33 48.9, 2.33 48.8))''"
    by (simp add: wktPolygon_def scenarioB_def)
next
  show "queryGeoServer scenarioB =
       (scenarioB, Fetch ''http://your-geoserver-url/geoserver/wfs?service=WFS&version=1.1.0&request=GetFeature&typeName=tmc1:datapoints,ohrc:datapoints&cql_filter=INTERSECTS(geom%2C%20POLYGON((2.33%2048.8%2C%202.35%2048.8%2C%202.35%2048.9%2C%202.33%2048.9%2C%202.33%2048.8)))&outputFormat=application/json'')"
    by (simp add: queryGeoServer_def scenarioB_def selectedWorkspaces_def wfsUrl_def
        typeNames_def cqlFilter_def wktPolygon_def geoServerUrl_def encodeURIComponent_def
        encodeUnit_def uriUnreserved_def percentOctet_def utf8Octets_def hexDigit_def)
qed

theorem queryGeoServer_request_url_witness:
  "top scenarioB \<noteq> '''' \<and> bottom scenarioB \<noteq> '''' \<and> left scenarioB \<noteq> ''''
   \<and> right scenarioB \<noteq> '''' \<and> map_of (selectedProducts scenarioB) ''ohrc'' = Some True
   \<and> queryGeoServer scenarioB =
       (scenarioB, Fetch (geoServerUrl
          @ ''?service=WFS&version=1.1.0&request=GetFeature&typeName=''
          @ join '','' [''tmc1:datapoints'', ''ohrc:datapoints'']
          @ ''&cql_filter=''
          @ encodeURIComponent
              ''INTERSECTS(geom, POLYGON((2.33 48.8, 2.35 48.8, 2.35 48.9, 2.33 48.9, 2.33 48.8)))''
          @ ''&outputFormat=application/json''))"
proof -
  have h: "top scenarioB \<noteq> '''' \<and> bottom scenarioB \<noteq> '''' \<and> left scenarioB \<noteq> ''''
      \<and> right scenarioB \<noteq> '''' \<and> map_of (selectedProducts scenarioB) ''ohrc'' = Some True"
    by (simp add: scenarioB_def)
  then have e: "\<exists>k. map_of (selectedProducts scenarioB) k = Some True"
    by blast
  have "queryGeoServer scenarioB =
        (scenarioB, Fetch (geoServerUrl
           @ ''?service=WFS&version=1.1.0&request=GetFeature&typeName=''
           @ join '',''
               (map (\<lambda>k. k @ '':datapoints'')
                 (filter (\<lambda>k. map_of (selectedProducts scenarioB) k = Some True)
                   (map fst (selectedProducts scenarioB))))
           @ ''&cql_filter=''
           @ encodeURIComponent
               (''INTERSECTS(geom, POLYGON((''
                  @ left scenarioB @ '' '' @ bottom scenarioB @ '', ''
                  @ right scenarioB @ '' '' @ bottom scenarioB @ '', ''
                  @ right scenarioB @ '' '' @ top scenarioB @ '', ''
                  @ left scenarioB @ '' '' @ top scenarioB @ '', ''
                  @ left scenarioB @ '' '' @ bottom scenarioB @ '')))'')
           @ ''&outputFormat=application/json''))"
    using queryGeoServer_request_url [of scenarioB] h e by blast
  moreover have "selectedProducts scenarioB = [(''tmc1'', True), (''tmc2'', False), (''ohrc'', True)]"
    and "top scenarioB = ''48.9''" and "bottom scenarioB = ''48.8''"
    and "left scenarioB = ''2.33''" and "right scenarioB = ''2.35''"
    by (simp_all add: scenarioB_def)
  ultimately have "queryGeoServer scenarioB =
       (scenarioB, Fetch (geoServerUrl
          @ ''?service=WFS&version=1.1.0&request=GetFeature&typeName=''
          @ join '','' [''tmc1:datapoints'', ''ohrc:datapoints'']
          @ ''&cql_filter=''
          @ encodeURIComponent
              ''INTERSECTS(geom, POLYGON((2.33 48.8, 2.35 48.8, 2.35 48.9, 2.33 48.9, 2.33 48.8)))''
          @ ''&outputFormat=application/json''))"
    by simp
  with h show ?thesis by blast
qed

section \<open>Validation\<close>

lemma queryGeoServer_state: "fst (queryGeoServer st) = st"
  by (simp add: queryGeoServer_def)

text \<open>
  C3. The handler stops with the alert for an incomplete area of interest whenever one
  of the four coordinate texts is empty, and with the alert for an empty selection
  whenever all four are present and no product id is selected. In both cases it returns
  the state as it was and the action is an alert, so \<open>fetch\<close> is not called. The spec
  names the two failures \<open>ValidationError("AOI incomplete")\<close> and
  \<open>ValidationError("no product selected")\<close>; the component reports them with the alert
  texts \<open>aoiAlert\<close> and \<open>productAlert\<close>.
\<close>

theorem queryGeoServer_validation:
  "(top st = '''' \<or> bottom st = '''' \<or> left st = '''' \<or> right st = ''''
      \<longrightarrow> queryGeoServer st = (st, Alert aoiAlert))
   \<and> (top st \<noteq> '''' \<and> bottom st \<noteq> '''' \<and> left st \<noteq> '''' \<and> right st \<noteq> ''''
        \<and> (\<forall>k. map_of (selectedProducts st) k \<noteq> Some True)
      \<longrightarrow> queryGeoServer st = (st, Alert productAlert))
   \<and> (\<forall>m url. snd (queryGeoServer st) = Alert m \<longrightarrow> snd (queryGeoServer st) \<noteq> Fetch url)
   \<and> fst (queryGeoServer st) = st
   \<and> aoiAlert = ''Please provide all coordinate values for the area of interest.''
   \<and> productAlert = ''Please select at least one data product.''"
proof (intro conjI impI)
  assume "top st = '''' \<or> bottom st = '''' \<or> left st = '''' \<or> right st = ''''"
  then show "queryGeoServer st = (st, Alert aoiAlert)"
    by (auto simp: queryGeoServer_def)
next
  assume a: "top st \<noteq> '''' \<and> bottom st \<noteq> '''' \<and> left st \<noteq> '''' \<and> right st \<noteq> ''''
        \<and> (\<forall>k. map_of (selectedProducts st) k \<noteq> Some True)"
  then have "selectedWorkspaces (selectedProducts st) = []"
    by (simp add: selectedWorkspaces_empty_iff)
  with a show "queryGeoServer st = (st, Alert productAlert)"
    by (simp add: queryGeoServer_def)
next
  show "\<forall>m url. snd (queryGeoServer st) = Alert m \<longrightarrow> snd (queryGeoServer st) \<noteq> Fetch url"
    by simp
next
  show "fst (queryGeoServer st) = st"
    by (rule queryGeoServer_state)
next
  show "aoiAlert = ''Please provide all coordinate values for the area of interest.''"
    by (simp add: aoiAlert_def)
next
  show "productAlert = ''Please select at least one data product.''"
    by (simp add: productAlert_def)
qed

text \<open>
  Scenario C (a state whose \<open>bottom\<close> is empty) and a state with all four
  coordinates and every product deselected.
\<close>

theorem queryGeoServer_validation_witness:
  "bottom (scenarioB\<lparr>bottom := ''''\<rparr>) = ''''
   \<and> queryGeoServer (scenarioB\<lparr>bottom := ''''\<rparr>) = (scenarioB\<lparr>bottom := ''''\<rparr>, Alert aoiAlert)
   \<and> top (scenarioB\<lparr>selectedProducts := [(''tmc1'', False), (''tmc2'', False), (''ohrc'', False)]\<rparr>) \<noteq> ''''
   \<and> queryGeoServer (scenarioB\<lparr>selectedProducts := [(''tmc1'', False), (''tmc2'', False), (''ohrc'', False)]\<rparr>)
       = (scenarioB\<lparr>selectedProducts := [(''tmc1'', False), (''tmc2'', False), (''ohrc'', False)]\<rparr>,
          Alert productAlert)"
proof -
  have 1: "bottom (scenarioB\<lparr>bottom := ''''\<rparr>) = ''''"
    by simp
  have 2: "top (scenarioB\<lparr>selectedProducts := [(''tmc1'', False), (''tmc2'', False), (''ohrc'', False)]\<rparr>) \<noteq> ''''
      \<and> bottom (scenarioB\<lparr>selectedProducts := [(''tmc1'', False), (''tmc2'', False), (''ohrc'', False)]\<rparr>) \<noteq> ''''
      \<and> left (scenarioB\<lparr>selectedProducts := [(''tmc1'', False), (''tmc2'', False), (''ohrc'', False)]\<rparr>) \<noteq> ''''
      \<and> right (scenarioB\<lparr>selectedProducts := [(''tmc1'', False), (''tmc2'', False), (''ohrc'', False)]\<rparr>) \<noteq> ''''
      \<and> (\<forall>k. map_of (selectedProducts
            (scenarioB\<lparr>selectedProducts := [(''tmc1'', False), (''tmc2'', False), (''ohrc'', False)]\<rparr>)) k
          \<noteq> Some True)"
    by (simp add: scenarioB_def)
  show ?thesis
    using 1 2 queryGeoServer_validation [of "scenarioB\<lparr>bottom := ''''\<rparr>"]
      queryGeoServer_validation
        [of "scenarioB\<lparr>selectedProducts := [(''tmc1'', False), (''tmc2'', False), (''ohrc'', False)]\<rparr>"]
    by blast
qed

section \<open>Decimal digits and fixed-point text\<close>

lemma of_char_digitChar:
  assumes "d < 10"
  shows "of_char (digitChar d) = 48 + d"
proof -
  from assms have "d \<in> {0, 1, 2, 3, 4, 5, 6, 7, 8, 9}" by auto
  then show ?thesis
    by (auto simp: digitChar_def)
qed

lemma digitVal_digitChar: "d < 10 \<Longrightarrow> digitVal (digitChar d) = d"
  by (simp add: digitVal_def of_char_digitChar)

lemma isDigit_digitChar: "d < 10 \<Longrightarrow> isDigit (digitChar d)"
  by (simp add: isDigit_def of_char_digitChar)

lemma natOfDigits_snoc: "natOfDigits (ds @ [c]) = 10 * natOfDigits ds + digitVal c"
  by (simp add: natOfDigits_def)

lemma digitsOf_digits: "list_all isDigit (digitsOf n)"
proof (induction n rule: digitsOf.induct)
  case (1 n)
  show ?case
  proof (cases "n < 10")
    case True
    then show ?thesis
      by (subst digitsOf.simps) (simp add: isDigit_digitChar)
  next
    case False
    with 1 have "list_all isDigit (digitsOf (n div 10))" by simp
    with False show ?thesis
      by (subst digitsOf.simps) (simp add: isDigit_digitChar)
  qed
qed

lemma digitsOf_nonempty: "digitsOf n \<noteq> []"
  by (subst digitsOf.simps) simp

lemma natOfDigits_digitsOf: "natOfDigits (digitsOf n) = n"
proof (induction n rule: digitsOf.induct)
  case (1 n)
  show ?case
  proof (cases "n < 10")
    case True
    then show ?thesis
      by (subst digitsOf.simps) (simp add: natOfDigits_def digitVal_digitChar)
  next
    case False
    with 1 have "natOfDigits (digitsOf (n div 10)) = n div 10" by simp
    with False show ?thesis
      by (subst digitsOf.simps) (simp add: natOfDigits_snoc digitVal_digitChar)
  qed
qed

lemma natOfDigits_zeros: "natOfDigits (replicate j (CHR ''0'') @ ds) = natOfDigits ds"
proof -
  have "foldl (\<lambda>a c. 10 * a + digitVal c) 0 (replicate j (CHR ''0'')) = 0"
    by (induction j) (simp_all add: digitVal_def)
  then show ?thesis
    by (simp add: natOfDigits_def)
qed

lemma isDigit_zero: "isDigit (CHR ''0'')"
  by (simp add: isDigit_def)

lemma not_isDigit_point: "\<not> isDigit (CHR ''.'')"
  by (simp add: isDigit_def)

lemma isDigit_not_minus: "isDigit c \<Longrightarrow> c \<noteq> CHR ''-''"
  by (auto simp: isDigit_def)

lemma readDecimal_fixed:
  assumes a: "list_all isDigit a" "a \<noteq> []" and b: "list_all isDigit b" "b \<noteq> []"
  shows "readDecimal ((if neg then ''-'' else '''') @ a @ ''.'' @ b) =
    Some ((if neg then - 1 else 1) * of_nat (natOfDigits (a @ b)) / 10 ^ length b)"
proof -
  from a obtain c cs where acs: "a = c # cs" and c: "isDigit c"
    by (cases a) auto
  have tw: "takeWhile isDigit (a @ ''.'' @ b) = a"
    using a(1) by (simp add: takeWhile_append2 list_all_iff not_isDigit_point)
  have dw: "dropWhile isDigit (a @ ''.'' @ b) = ''.'' @ b"
    using a(1) by (simp add: dropWhile_append2 list_all_iff not_isDigit_point)
  show ?thesis
  proof (cases neg)
    case True
    then show ?thesis
      using tw dw a b by (simp add: readDecimal_def Let_def)
  next
    case False
    have "c \<noteq> CHR ''-''" using c by (rule isDigit_not_minus)
    with False show ?thesis
      using tw dw a b acs by (simp add: readDecimal_def Let_def)
  qed
qed

lemma toFixed6_shape:
  assumes "\<bar>x\<bar> < 10 ^ 21"
  shows "\<exists>a b. toFixed toStr 6 x = (if x < 0 then ''-'' else '''') @ a @ ''.'' @ b
    \<and> list_all isDigit a \<and> a \<noteq> [] \<and> list_all isDigit b \<and> length b = 6
    \<and> natOfDigits (a @ b) = nat \<lfloor>\<bar>x\<bar> * 10 ^ 6 + 1 / 2\<rfloor>"
proof -
  define n where "n = nat \<lfloor>\<bar>x\<bar> * 10 ^ 6 + 1 / 2\<rfloor>"
  define m where "m = digitsOf n"
  define m1 where "m1 = (if length m \<le> 6 then replicate (6 + 1 - length m) (CHR ''0'') @ m else m)"
  define k where "k = length m1"
  have dm1: "list_all isDigit m1"
    using digitsOf_digits [of n] by (auto simp: m1_def m_def list_all_iff isDigit_zero)
  have vm1: "natOfDigits m1 = n"
    by (simp add: m1_def m_def natOfDigits_zeros natOfDigits_digitsOf)
  have k7: "7 \<le> k"
    by (simp add: k_def m1_def)
  have tf: "toFixed toStr 6 x = (if x < 0 then ''-'' else '''') @ take (k - 6) m1 @ ''.'' @ drop (k - 6) m1"
    using assms by (simp add: toFixed_def Let_def k_def m1_def m_def n_def)
  have "list_all isDigit (take (k - 6) m1)" "list_all isDigit (drop (k - 6) m1)"
    using dm1 by (auto simp: list_all_iff dest: in_set_takeD in_set_dropD)
  moreover have "take (k - 6) m1 \<noteq> []" "length (drop (k - 6) m1) = 6"
    using k7 by (auto simp: k_def)
  moreover have "natOfDigits (take (k - 6) m1 @ drop (k - 6) m1) = n"
    by (simp add: vm1)
  ultimately show ?thesis
    using tf unfolding n_def by blast
qed

lemma readDecimal_toFixed:
  assumes "\<bar>x\<bar> < 10 ^ 21"
  shows "readDecimal (toFixed toStr 6 x) = Some (round6 x)"
proof -
  from toFixed6_shape [OF assms, of toStr] obtain a b where
    tf: "toFixed toStr 6 x = (if x < 0 then ''-'' else '''') @ a @ ''.'' @ b"
    and d: "list_all isDigit a" "a \<noteq> []" "list_all isDigit b" "length b = 6"
    and v: "natOfDigits (a @ b) = nat \<lfloor>\<bar>x\<bar> * 10 ^ 6 + 1 / 2\<rfloor>"
    by blast
  from d(4) have bne: "b \<noteq> []" by auto
  have nn: "0 \<le> \<lfloor>\<bar>x\<bar> * 10 ^ 6 + 1 / 2\<rfloor>"
    by simp
  have "readDecimal (toFixed toStr 6 x) =
      Some ((if x < 0 then - 1 else 1) * of_nat (natOfDigits (a @ b)) / 10 ^ length b)"
    unfolding tf using d(1-3) bne by (rule readDecimal_fixed)
  also have "of_nat (natOfDigits (a @ b)) = (of_int \<lfloor>\<bar>x\<bar> * 10 ^ 6 + 1 / 2\<rfloor> :: rat)"
    unfolding v using nn by (metis of_nat_nat)
  finally show ?thesis
    by (simp add: round6_def d(4))
qed

lemma round6_error: "\<bar>round6 x - x\<bar> \<le> 1 / (2 * 10 ^ 6)"
proof -
  define y where "y = \<bar>x\<bar> * 10 ^ 6"
  define fl where "fl = \<lfloor>y + 1 / 2\<rfloor>"
  have "of_int fl \<le> y + 1 / 2" "y + 1 / 2 < of_int fl + 1"
    unfolding fl_def by linarith+
  then have e: "\<bar>of_int fl - y\<bar> \<le> 1 / 2"
    by linarith
  have eq: "round6 x - x = (if x < 0 then - 1 else 1) * ((of_int fl - y) / 10 ^ 6)"
    by (simp add: round6_def fl_def y_def field_simps)
  have "\<bar>round6 x - x\<bar> = \<bar>of_int fl - y\<bar> / 10 ^ 6"
    unfolding eq by (simp add: abs_mult)
  with e show ?thesis
    by (simp add: field_simps)
qed

lemma round6_mono: "x \<le> y \<Longrightarrow> round6 x \<le> round6 y"
proof -
  assume xy: "x \<le> y"
  have fm: "\<And>u v :: rat. u \<le> v \<Longrightarrow> (of_int \<lfloor>u * 10 ^ 6 + 1 / 2\<rfloor> :: rat) \<le> of_int \<lfloor>v * 10 ^ 6 + 1 / 2\<rfloor>"
    by (simp add: floor_mono)
  have nn: "\<And>u :: rat. (0::rat) \<le> of_int \<lfloor>\<bar>u\<bar> * 10 ^ 6 + 1 / 2\<rfloor>"
    by simp
  consider "0 \<le> x" | "x < 0" "0 \<le> y" | "y < 0" using xy by linarith
  then show ?thesis
  proof cases
    case 1
    with xy have "\<bar>x\<bar> \<le> \<bar>y\<bar>" by simp
    from fm [OF this] 1 xy show ?thesis
      by (simp add: round6_def divide_right_mono)
  next
    case 2
    have "round6 x \<le> 0" using 2(1) nn [of x] by (simp add: round6_def)
    moreover have "0 \<le> round6 y" using 2(2) nn [of y] by (simp add: round6_def)
    ultimately show ?thesis by simp
  next
    case 3
    with xy have "\<bar>y\<bar> \<le> \<bar>x\<bar>" by simp
    from fm [OF this] 3 xy show ?thesis
      by (simp add: round6_def divide_right_mono)
  qed
qed

lemma toFixed6_eval:
  assumes "\<bar>x\<bar> < 10 ^ 21" and "\<lfloor>\<bar>x\<bar> * 10 ^ 6 + 1 / 2\<rfloor> = int n"
    and "digitsOf n = ds" and "6 < length ds"
  shows "toFixed toStr 6 x =
    (if x < 0 then ''-'' else '''') @ take (length ds - 6) ds @ ''.'' @ drop (length ds - 6) ds"
  using assms by (simp add: toFixed_def Let_def)

lemma toFixed6_twenty: "toFixed toStr 6 20 = ''20.000000''"
proof -
  have "digitsOf 20000000 = ''20000000''"
    by (simp add: digitsOf.simps digitChar_def)
  then show ?thesis
    by (simp add: toFixed6_eval [where n = 20000000 and ds = "''20000000''"] floor_eq_iff)
qed

lemma toFixed6_ten: "toFixed toStr 6 10 = ''10.000000''"
proof -
  have "digitsOf 10000000 = ''10000000''"
    by (simp add: digitsOf.simps digitChar_def)
  then show ?thesis
    by (simp add: toFixed6_eval [where n = 10000000 and ds = "''10000000''"] floor_eq_iff)
qed

section \<open>The bounding box of a drawing\<close>

lemma forEachEntity_Some:
  "forEachEntity (map Some pts) (lats, lons) = (lats @ map fst pts, lons @ map snd pts)"
proof (induction pts arbitrary: lats lons)
  case Nil
  show ?case by simp
next
  case (Cons p pts)
  obtain lat lon where p: "p = (lat, lon)" by (cases p)
  show ?case by (simp add: p Cons.IH)
qed

lemma Math_max_Max: "Math_max x xs = Max (set (x # xs))"
  by (simp only: Math_max_def Max.set_eq_fold)

lemma Math_min_Min: "Math_min x xs = Min (set (x # xs))"
  by (simp only: Math_min_def Min.set_eq_fold)

lemma onDrawingUpdated_points:
  assumes "3 \<le> length pts"
  shows "onDrawingUpdated toStr closeLoop (map Some pts) st =
    (if closeLoop
     then (st\<lparr>top := toFixed toStr 6 (Max (fst ` set pts)),
              bottom := toFixed toStr 6 (Min (fst ` set pts)),
              left := toFixed toStr 6 (Min (snd ` set pts)),
              right := toFixed toStr 6 (Max (snd ` set pts)),
              drawingMode := False\<rparr>, True)
     else (st, False))"
proof -
  from assms obtain p ps where pts: "pts = p # ps"
    by (cases pts) auto
  have fe: "forEachEntity (map Some pts) ([], []) = (fst p # map fst ps, snd p # map snd ps)"
    unfolding pts using forEachEntity_Some [of "p # ps" "[]" "[]"] by simp
  have s: "set (fst p # map fst ps) = fst ` set pts" "set (snd p # map snd ps) = snd ` set pts"
    by (simp_all add: pts)
  show ?thesis
    using assms by (simp add: onDrawingUpdated_def fe Math_max_Max Math_min_Min s del: set_simps)
qed

text \<open>
  C2. For at least three drawn points (entities whose position has a value) and a
  closed loop, the handler stores the bounding box of the points: \<open>top\<close> is the text of
  the largest latitude, \<open>bottom\<close> of the smallest latitude, \<open>left\<close> of the smallest
  longitude and \<open>right\<close> of the largest longitude, each printed by \<open>toFixed(6)\<close>. The box
  has top at least bottom and right at least left, and it does not depend on the order
  of the points. While the loop is open, the handler does nothing. For the points
  (10,10), (10,20), (20,20), (20,10) the stored texts read 20, 10, 10 and 20.
\<close>

theorem onDrawingUpdated_bounding_box:
  "(3 \<le> length pts \<longrightarrow>
      onDrawingUpdated toStr closeLoop (map Some pts) st =
        (if closeLoop
         then (st\<lparr>top := toFixed toStr 6 (Max (fst ` set pts)),
                  bottom := toFixed toStr 6 (Min (fst ` set pts)),
                  left := toFixed toStr 6 (Min (snd ` set pts)),
                  right := toFixed toStr 6 (Max (snd ` set pts)),
                  drawingMode := False\<rparr>, True)
         else (st, False))
      \<and> Min (fst ` set pts) \<le> Max (fst ` set pts)
      \<and> Min (snd ` set pts) \<le> Max (snd ` set pts)
      \<and> (\<forall>pts'. mset pts' = mset pts \<longrightarrow>
            onDrawingUpdated toStr closeLoop (map Some pts') st =
            onDrawingUpdated toStr closeLoop (map Some pts) st))
   \<and> onDrawingUpdated toStr True scenarioA st =
       (st\<lparr>top := ''20.000000'', bottom := ''10.000000'', left := ''10.000000'',
           right := ''20.000000'', drawingMode := False\<rparr>, True)
   \<and> readDecimal ''20.000000'' = Some 20
   \<and> readDecimal ''10.000000'' = Some 10"
proof (intro conjI impI allI)
  assume "3 \<le> length pts"
  then show "onDrawingUpdated toStr closeLoop (map Some pts) st =
        (if closeLoop
         then (st\<lparr>top := toFixed toStr 6 (Max (fst ` set pts)),
                  bottom := toFixed toStr 6 (Min (fst ` set pts)),
                  left := toFixed toStr 6 (Min (snd ` set pts)),
                  right := toFixed toStr 6 (Max (snd ` set pts)),
                  drawingMode := False\<rparr>, True)
         else (st, False))"
    by (rule onDrawingUpdated_points)
next
  assume "3 \<le> length pts"
  then have "set pts \<noteq> {}" by auto
  then show "Min (fst ` set pts) \<le> Max (fst ` set pts)"
    by (simp add: Min_le_iff)
next
  assume "3 \<le> length pts"
  then have "set pts \<noteq> {}" by auto
  then show "Min (snd ` set pts) \<le> Max (snd ` set pts)"
    by (simp add: Min_le_iff)
next
  fix pts'
  assume l: "3 \<le> length pts" and m: "mset pts' = mset pts"
  from m have "set pts' = set pts" "length pts' = length pts"
    by (auto dest: mset_eq_setD mset_eq_length)
  with l show "onDrawingUpdated toStr closeLoop (map Some pts') st =
      onDrawingUpdated toStr closeLoop (map Some pts) st"
    by (simp add: onDrawingUpdated_points)
next
  have eq: "scenarioA = map Some [(10, 10), (10, 20), (20, 20), (20, 10)]"
    by (simp add: scenarioA_def)
  have "3 \<le> length ([(10, 10), (10, 20), (20, 20), (20, 10)] :: (number \<times> number) list)"
    by simp
  from onDrawingUpdated_points [OF this, of toStr True st]
  show "onDrawingUpdated toStr True scenarioA st =
       (st\<lparr>top := ''20.000000'', bottom := ''10.000000'', left := ''10.000000'',
           right := ''20.000000'', drawingMode := False\<rparr>, True)"
    unfolding eq by (simp add: toFixed6_twenty toFixed6_ten)
next
  show "readDecimal ''20.000000'' = Some 20"
    by (simp add: readDecimal_def isDigit_def natOfDigits_def digitVal_def)
next
  show "readDecimal ''10.000000'' = Some 10"
    by (simp add: readDecimal_def isDigit_def natOfDigits_def digitVal_def)
qed

theorem onDrawingUpdated_bounding_box_witness:
  "3 \<le> length ([(10, 10), (10, 20), (20, 20), (20, 10)] :: (number \<times> number) list)
   \<and> mset ([(20, 10), (20, 20), (10, 20), (10, 10)] :: (number \<times> number) list) =
       mset [(10, 10), (10, 20), (20, 20), (20, 10)]
   \<and> onDrawingUpdated (\<lambda>_. []) True
        (map Some [(20, 10), (20, 20), (10, 20), (10, 10)]) initialState =
      (initialState\<lparr>top := ''20.000000'', bottom := ''10.000000'', left := ''10.000000'',
          right := ''20.000000'', drawingMode := False\<rparr>, True)"
proof -
  have l: "3 \<le> length ([(10, 10), (10, 20), (20, 20), (20, 10)] :: (number \<times> number) list)"
    by simp
  have m: "mset ([(20, 10), (20, 20), (10, 20), (10, 10)] :: (number \<times> number) list) =
       mset [(10, 10), (10, 20), (20, 20), (20, 10)]"
    by simp
  have "onDrawingUpdated (\<lambda>_. []) True
        (map Some [(20, 10), (20, 20), (10, 20), (10, 10)]) initialState =
      onDrawingUpdated (\<lambda>_. []) True
        (map Some [(10, 10), (10, 20), (20, 20), (20, 10)]) initialState"
    using onDrawingUpdated_bounding_box
      [of "[(10, 10), (10, 20), (20, 20), (20, 10)]" "\<lambda>_. []" True initialState] l m
    by blast
  moreover have "onDrawingUpdated (\<lambda>_. []) True
        (map Some [(10, 10), (10, 20), (20, 20), (20, 10)]) initialState =
      (initialState\<lparr>top := toFixed (\<lambda>_. []) 6 (Max (fst ` set [(10, 10), (10, 20), (20, 20), (20, 10)])),
          bottom := toFixed (\<lambda>_. []) 6 (Min (fst ` set [(10, 10), (10, 20), (20, 20), (20, 10)])),
          left := toFixed (\<lambda>_. []) 6 (Min (snd ` set [(10, 10), (10, 20), (20, 20), (20, 10)])),
          right := toFixed (\<lambda>_. []) 6 (Max (snd ` set [(10, 10), (10, 20), (20, 20), (20, 10)])),
          drawingMode := False\<rparr>, True)"
    using onDrawingUpdated_bounding_box
      [of "[(10, 10), (10, 20), (20, 20), (20, 10)]" "\<lambda>_. []" True initialState] l
    by simp
  ultimately have "onDrawingUpdated (\<lambda>_. []) True
        (map Some [(20, 10), (20, 20), (10, 20), (10, 10)]) initialState =
      (initialState\<lparr>top := ''20.000000'', bottom := ''10.000000'', left := ''10.000000'',
          right := ''20.000000'', drawingMode := False\<rparr>, True)"
    by (simp add: toFixed6_twenty toFixed6_ten)
  with l m show ?thesis by blast
qed

text \<open>
  C5. With fewer than three point entities the handler stores nothing and does not end
  the drawing: it returns the state as it was, whatever the \<open>closeLoop\<close> flag.
\<close>

theorem onDrawingUpdated_fewer_than_three:
  "length values < 3 \<Longrightarrow> onDrawingUpdated toStr closeLoop values st = (st, False)"
  by (simp add: onDrawingUpdated_def)

theorem onDrawingUpdated_fewer_than_three_witness:
  "length ([Some (10, 10), Some (10, 20)] :: entity list) < 3
   \<and> onDrawingUpdated (\<lambda>_. []) True [Some (10, 10), Some (10, 20)] scenarioB = (scenarioB, False)"
proof -
  have l: "length ([Some (10, 10), Some (10, 20)] :: entity list) < 3"
    by simp
  from onDrawingUpdated_fewer_than_three [OF l] l show ?thesis
    by blast
qed

section \<open>Reading the stored coordinates back\<close>

lemma round6_grid: "\<exists>k :: int. round6 x = of_int k / 10 ^ 6"
proof (cases "x < 0")
  case True
  then have "round6 x = of_int (- \<lfloor>\<bar>x\<bar> * 10 ^ 6 + 1 / 2\<rfloor>) / 10 ^ 6"
    by (simp add: round6_def)
  then show ?thesis by blast
next
  case False
  then have "round6 x = of_int \<lfloor>\<bar>x\<bar> * 10 ^ 6 + 1 / 2\<rfloor> / 10 ^ 6"
    by (simp add: round6_def)
  then show ?thesis by blast
qed

lemma Max_in_range:
  assumes "xs \<noteq> []" and "\<forall>x\<in>set xs. \<bar>f x\<bar> < (b :: rat)"
  shows "\<bar>Max (f ` set xs)\<bar> < b" and "\<bar>Min (f ` set xs)\<bar> < b"
proof -
  from assms(1) have ne: "f ` set xs \<noteq> {}" by simp
  have "Max (f ` set xs) \<in> f ` set xs"
    using ne by (intro Max_in) simp_all
  with assms(2) show "\<bar>Max (f ` set xs)\<bar> < b" by auto
  have "Min (f ` set xs) \<in> f ` set xs"
    using ne by (intro Min_in) simp_all
  with assms(2) show "\<bar>Min (f ` set xs)\<bar> < b" by auto
qed

lemma onDrawingUpdated_read_back:
  assumes l: "3 \<le> length pts"
    and r: "\<forall>p\<in>set pts. \<bar>fst p\<bar> < 10 ^ 21 \<and> \<bar>snd p\<bar> < 10 ^ 21"
  shows "readDecimal (top (fst (onDrawingUpdated toStr True (map Some pts) st)))
        = Some (round6 (Max (fst ` set pts)))
      \<and> readDecimal (bottom (fst (onDrawingUpdated toStr True (map Some pts) st)))
        = Some (round6 (Min (fst ` set pts)))
      \<and> readDecimal (left (fst (onDrawingUpdated toStr True (map Some pts) st)))
        = Some (round6 (Min (snd ` set pts)))
      \<and> readDecimal (right (fst (onDrawingUpdated toStr True (map Some pts) st)))
        = Some (round6 (Max (snd ` set pts)))"
proof -
  from l have ne: "pts \<noteq> []" by auto
  from r have rf: "\<forall>p\<in>set pts. \<bar>fst p\<bar> < 10 ^ 21" and rs: "\<forall>p\<in>set pts. \<bar>snd p\<bar> < 10 ^ 21"
    by auto
  note b = Max_in_range [OF ne rf] Max_in_range [OF ne rs]
  note rt = b [THEN readDecimal_toFixed, of toStr]
  show ?thesis
    by (simp add: onDrawingUpdated_points [OF l] rt)
qed

text \<open>
  The stored texts are ordered as a box: the value of \<open>bottom\<close> is at most that of
  \<open>top\<close>, and the value of \<open>left\<close> at most that of \<open>right\<close>.
\<close>

lemma onDrawingUpdated_box_ordered:
  assumes l: "3 \<le> length pts"
    and r: "\<forall>p\<in>set pts. \<bar>fst p\<bar> < 10 ^ 21 \<and> \<bar>snd p\<bar> < 10 ^ 21"
  shows "\<exists>t b le ri.
      readDecimal (top (fst (onDrawingUpdated toStr True (map Some pts) st))) = Some t
      \<and> readDecimal (bottom (fst (onDrawingUpdated toStr True (map Some pts) st))) = Some b
      \<and> readDecimal (left (fst (onDrawingUpdated toStr True (map Some pts) st))) = Some le
      \<and> readDecimal (right (fst (onDrawingUpdated toStr True (map Some pts) st))) = Some ri
      \<and> b \<le> t \<and> le \<le> ri"
proof -
  from l have ne: "set pts \<noteq> {}" by auto
  then have "Min (fst ` set pts) \<le> Max (fst ` set pts)" "Min (snd ` set pts) \<le> Max (snd ` set pts)"
    by (simp_all add: Min_le_iff)
  then have "round6 (Min (fst ` set pts)) \<le> round6 (Max (fst ` set pts))"
    "round6 (Min (snd ` set pts)) \<le> round6 (Max (snd ` set pts))"
    by (simp_all add: round6_mono)
  with onDrawingUpdated_read_back [OF l r, of toStr st] show ?thesis
    by blast
qed

text \<open>
  C7. After a drawing has been reduced, the four stored coordinate texts read back as
  the sides of the bounding box rounded to six decimal places: \<open>top\<close> as the largest
  latitude, \<open>bottom\<close> as the smallest latitude, \<open>left\<close> as the smallest longitude and
  \<open>right\<close> as the largest longitude. The rounded value lies on the grid of millionths,
  at most half a millionth from the exact one, and the text is in fixed notation with
  exactly six digits after the point. Coordinates are degrees, at most 180 in magnitude;
  the theorem asks only that they stay below \<open>10\<^sup>2\<^sup>1\<close>, where \<open>toFixed\<close> leaves fixed
  notation.
\<close>

theorem coordinates_read_back:
  "(3 \<le> length pts \<and> (\<forall>p\<in>set pts. \<bar>fst p\<bar> < 10 ^ 21 \<and> \<bar>snd p\<bar> < 10 ^ 21) \<longrightarrow>
      readDecimal (top (fst (onDrawingUpdated toStr True (map Some pts) st)))
        = Some (round6 (Max (fst ` set pts)))
      \<and> readDecimal (bottom (fst (onDrawingUpdated toStr True (map Some pts) st)))
        = Some (round6 (Min (fst ` set pts)))
      \<and> readDecimal (left (fst (onDrawingUpdated toStr True (map Some pts) st)))
        = Some (round6 (Min (snd ` set pts)))
      \<and> readDecimal (right (fst (onDrawingUpdated toStr True (map Some pts) st)))
        = Some (round6 (Max (snd ` set pts))))
   \<and> (\<bar>x\<bar> < 10 ^ 21 \<longrightarrow>
        readDecimal (toFixed toStr 6 x) = Some (round6 x)
        \<and> (\<exists>a b. toFixed toStr 6 x = (if x < 0 then ''-'' else '''') @ a @ ''.'' @ b
              \<and> list_all isDigit a \<and> a \<noteq> [] \<and> list_all isDigit b \<and> length b = 6))
   \<and> \<bar>round6 x - x\<bar> \<le> 1 / (2 * 10 ^ 6)
   \<and> (\<exists>k :: int. round6 x = of_int k / 10 ^ 6)"
proof -
  note box = onDrawingUpdated_read_back [of pts toStr st]
  have shape: "\<exists>a b. toFixed toStr 6 x = (if x < 0 then ''-'' else '''') @ a @ ''.'' @ b
      \<and> list_all isDigit a \<and> a \<noteq> [] \<and> list_all isDigit b \<and> length b = 6"
    if "\<bar>x\<bar> < 10 ^ 21"
    using toFixed6_shape [OF that, of toStr] by blast
  show ?thesis
    using box shape readDecimal_toFixed [of x toStr] round6_error [of x] round6_grid [of x]
    by blast
qed

theorem coordinates_read_back_witness:
  "3 \<le> length ([(488566141 / 10000000, 23522219 / 10000000), (4885 / 100, 229 / 100),
        (- 338688197 / 10000000, 1512092955 / 10000000)] :: (number \<times> number) list)
   \<and> \<bar>488566141 / 10000000 :: rat\<bar> < 10 ^ 21
   \<and> readDecimal (top (fst (onDrawingUpdated (\<lambda>_. []) True
        (map Some [(488566141 / 10000000, 23522219 / 10000000), (4885 / 100, 229 / 100),
          (- 338688197 / 10000000, 1512092955 / 10000000)]) initialState)))
      = Some (48856614 / 1000000)
   \<and> readDecimal (bottom (fst (onDrawingUpdated (\<lambda>_. []) True
        (map Some [(488566141 / 10000000, 23522219 / 10000000), (4885 / 100, 229 / 100),
          (- 338688197 / 10000000, 1512092955 / 10000000)]) initialState)))
      = Some (- 33868820 / 1000000)
   \<and> readDecimal (left (fst (onDrawingUpdated (\<lambda>_. []) True
        (map Some [(488566141 / 10000000, 23522219 / 10000000), (4885 / 100, 229 / 100),
          (- 338688197 / 10000000, 1512092955 / 10000000)]) initialState)))
      = Some (229 / 100)
   \<and> readDecimal (right (fst (onDrawingUpdated (\<lambda>_. []) True
        (map Some [(488566141 / 10000000, 23522219 / 10000000), (4885 / 100, 229 / 100),
          (- 338688197 / 10000000, 1512092955 / 10000000)]) initialState)))
      = Some (151209296 / 1000000)"
proof -
  define pts :: "(number \<times> number) list" where
    "pts = [(488566141 / 10000000, 23522219 / 10000000), (4885 / 100, 229 / 100),
        (- 338688197 / 10000000, 1512092955 / 10000000)]"
  have l: "3 \<le> length pts"
    by (simp add: pts_def)
  have r: "\<forall>p\<in>set pts. \<bar>fst p\<bar> < 10 ^ 21 \<and> \<bar>snd p\<bar> < 10 ^ 21"
    by (simp add: pts_def)
  have mx: "Max (fst ` set pts) = 488566141 / 10000000" "Min (fst ` set pts) = - 338688197 / 10000000"
    "Min (snd ` set pts) = 229 / 100" "Max (snd ` set pts) = 1512092955 / 10000000"
    by (simp_all add: pts_def)
  have rd: "round6 (488566141 / 10000000) = 48856614 / 1000000"
    "round6 (- 338688197 / 10000000) = - 33868820 / 1000000"
    "round6 (229 / 100) = 229 / 100"
    "round6 (1512092955 / 10000000) = 151209296 / 1000000"
    by (simp_all add: round6_def floor_eq_iff)
  have "readDecimal (top (fst (onDrawingUpdated (\<lambda>_. []) True (map Some pts) initialState)))
        = Some (48856614 / 1000000)
      \<and> readDecimal (bottom (fst (onDrawingUpdated (\<lambda>_. []) True (map Some pts) initialState)))
        = Some (- 33868820 / 1000000)
      \<and> readDecimal (left (fst (onDrawingUpdated (\<lambda>_. []) True (map Some pts) initialState)))
        = Some (229 / 100)
      \<and> readDecimal (right (fst (onDrawingUpdated (\<lambda>_. []) True (map Some pts) initialState)))
        = Some (151209296 / 1000000)"
    using coordinates_read_back [of pts "\<lambda>_. []" initialState 0] l r
    unfolding mx rd by blast
  then show ?thesis
    unfolding pts_def by simp
qed

section \<open>The catalog item\<close>

text \<open>
  C6. \<open>addDataToWorkbench\<close> has no failure path: for every document it hands
  \<open>addModel\<close> the item named "Filtered Data", of type "geojson", enabled, with the
  document itself as data. For the empty feature collection of scenario D this is the
  item written out below, and a fulfilled response with that document as its body leads
  to the same item.
\<close>

theorem addDataToWorkbench_item:
  "addDataToWorkbench geoJsonData =
     AddModel \<lparr>name = ''Filtered Data'', type = ''geojson'', data = geoJsonData, isEnabled = True\<rparr>
   \<and> (\<forall>label cause. addDataToWorkbench geoJsonData \<noteq> ConsoleError label cause)
   \<and> addDataToWorkbench
        (JObject [(''type'', JString ''FeatureCollection''), (''features'', JArray [])]) =
       AddModel \<lparr>name = ''Filtered Data'', type = ''geojson'',
         data = JObject [(''type'', JString ''FeatureCollection''), (''features'', JArray [])],
         isEnabled = True\<rparr>
   \<and> fetchSettled (Fulfilled \<lparr>status = 200,
          json = Inr (JObject [(''type'', JString ''FeatureCollection''), (''features'', JArray [])])\<rparr>) =
       AddModel \<lparr>name = ''Filtered Data'', type = ''geojson'',
         data = JObject [(''type'', JString ''FeatureCollection''), (''features'', JArray [])],
         isEnabled = True\<rparr>"
  by (simp add: addDataToWorkbench_def fetchSettled_def)

section \<open>Settling of the request\<close>

lemma fetchSettled_rejected:
  "fetchSettled (Rejected cause) = ConsoleError ''Error querying GeoServer:'' cause"
  by (simp add: fetchSettled_def)

lemma fetchSettled_not_json:
  "json r = Inl cause \<Longrightarrow> fetchSettled (Fulfilled r) = ConsoleError ''Error querying GeoServer:'' cause"
  by (simp add: fetchSettled_def)

lemma fetchSettled_status_ignored:
  "fetchSettled (Fulfilled (r\<lparr>status := s\<rparr>)) = fetchSettled (Fulfilled r)"
  by (simp add: fetchSettled_def)

text \<open>
  C4 does not hold of the handler. A rejected \<open>fetch\<close> and a body that is not JSON are
  logged with their cause, and nothing is retried, but the chain never reads
  \<open>response.ok\<close> or the status: a response with status 500 whose body is a JSON
  document is handed to \<open>addDataToWorkbench\<close> like a successful result.
\<close>

theorem fetchSettled_non_success_added:
  "\<not> ok \<lparr>status = 500, json = Inr (JObject [(''error'', JString ''Internal Server Error'')])\<rparr>
   \<and> fetchSettled (Fulfilled
        \<lparr>status = 500, json = Inr (JObject [(''error'', JString ''Internal Server Error'')])\<rparr>) =
       AddModel \<lparr>name = ''Filtered Data'', type = ''geojson'',
         data = JObject [(''error'', JString ''Internal Server Error'')], isEnabled = True\<rparr>"
  by (simp add: ok_def fetchSettled_def addDataToWorkbench_def)

section \<open>Determinism of the query\<close>

text \<open>
  C8. Two states with the same four coordinate texts and the same selection yield the
  same polygon text, the same type names, the same request URL and the same action,
  whatever their drawing-mode flags.
\<close>

theorem queryGeoServer_deterministic:
  assumes "top s = top t" and "bottom s = bottom t" and "left s = left t" and "right s = right t"
    and "selectedProducts s = selectedProducts t"
  shows "wktPolygon s = wktPolygon t
    \<and> typeNames (selectedWorkspaces (selectedProducts s)) = typeNames (selectedWorkspaces (selectedProducts t))
    \<and> wfsUrl s = wfsUrl t
    \<and> snd (queryGeoServer s) = snd (queryGeoServer t)"
  using assms by (simp add: wktPolygon_def cqlFilter_def wfsUrl_def queryGeoServer_def)

theorem queryGeoServer_deterministic_witness:
  "top scenarioB = top (scenarioB\<lparr>drawingMode := True\<rparr>)
   \<and> selectedProducts scenarioB = selectedProducts (scenarioB\<lparr>drawingMode := True\<rparr>)
   \<and> scenarioB \<noteq> scenarioB\<lparr>drawingMode := True\<rparr>
   \<and> wfsUrl scenarioB = wfsUrl (scenarioB\<lparr>drawingMode := True\<rparr>)
   \<and> snd (queryGeoServer scenarioB) = snd (queryGeoServer (scenarioB\<lparr>drawingMode := True\<rparr>))"
proof -
  have d: "scenarioB \<noteq> scenarioB\<lparr>drawingMode := True\<rparr>"
    by (simp add: scenarioB_def)
  have "wktPolygon scenarioB = wktPolygon (scenarioB\<lparr>drawingMode := True\<rparr>)
    \<and> typeNames (selectedWorkspaces (selectedProducts scenarioB))
        = typeNames (selectedWorkspaces (selectedProducts (scenarioB\<lparr>drawingMode := True\<rparr>)))
    \<and> wfsUrl scenarioB = wfsUrl (scenarioB\<lparr>drawingMode := True\<rparr>)
    \<and> snd (queryGeoServer scenarioB) = snd (queryGeoServer (scenarioB\<lparr>drawingMode := True\<rparr>))"
    by (rule queryGeoServer_deterministic) simp_all
  with d show ?thesis by simp
qed

section \<open>What each handler leaves alone\<close>

lemma map_of_insertKey:
  "k \<notin> set (map fst ps) \<Longrightarrow> map_of (insertKey k v ps) = (map_of ps)(k \<mapsto> v)"
  by (induction ps) (auto simp: fun_eq_iff)

lemma map_of_replace_at:
  "map_of (map (\<lambda>(k', v'). if k' = k then (k', v) else (k', v')) ps) x =
     (if x = k then (if k \<in> set (map fst ps) then Some v else None) else map_of ps x)"
  by (induction ps) (force simp: image_iff)+

lemma map_of_replace:
  "k \<in> set (map fst ps) \<Longrightarrow>
   map_of (map (\<lambda>(k', v'). if k' = k then (k', v) else (k', v')) ps) = (map_of ps)(k \<mapsto> v)"
  by (rule ext) (simp add: map_of_replace_at)

lemma map_of_setProperty: "map_of (setProperty k v ps) = (map_of ps)(k \<mapsto> v)"
  by (simp add: setProperty_def map_of_insertKey map_of_replace)

lemma keys_setProperty:
  "k \<in> set (map fst ps) \<Longrightarrow> map fst (setProperty k v ps) = map fst ps"
  by (auto simp: setProperty_def split: prod.splits)

lemma onDrawingUpdated_frame:
  "selectedProducts (fst (onDrawingUpdated toStr closeLoop values st)) = selectedProducts st"
  by (simp add: onDrawingUpdated_def split: prod.splits list.splits)

lemma onDrawingUpdated_result:
  "(snd (onDrawingUpdated toStr closeLoop values st) \<longrightarrow>
      fst (onDrawingUpdated toStr closeLoop values st) =
        st\<lparr>top := top (fst (onDrawingUpdated toStr closeLoop values st)),
           bottom := bottom (fst (onDrawingUpdated toStr closeLoop values st)),
           left := left (fst (onDrawingUpdated toStr closeLoop values st)),
           right := right (fst (onDrawingUpdated toStr closeLoop values st)),
           drawingMode := False\<rparr>)
   \<and> (\<not> snd (onDrawingUpdated toStr closeLoop values st) \<longrightarrow>
        fst (onDrawingUpdated toStr closeLoop values st) = st)"
  by (simp add: onDrawingUpdated_def split: prod.splits list.splits)

text \<open>
  C10. A drawing update never changes the selection. When it succeeds (it ended the
  drawing) the new state is the old one with the four coordinate texts overwritten and
  the drawing-mode flag cleared; otherwise the state is the old one. A product toggle
  leaves the four coordinate texts and the drawing-mode flag as they were, sets the flag
  of the toggled id, leaves the flag of every other id as it was, and keeps the order of
  the ids when the toggled id is already in the selection.
\<close>

theorem handlers_frame:
  "selectedProducts (fst (onDrawingUpdated toStr closeLoop values st)) = selectedProducts st
   \<and> (snd (onDrawingUpdated toStr closeLoop values st) \<longrightarrow>
        fst (onDrawingUpdated toStr closeLoop values st) =
          st\<lparr>top := top (fst (onDrawingUpdated toStr closeLoop values st)),
             bottom := bottom (fst (onDrawingUpdated toStr closeLoop values st)),
             left := left (fst (onDrawingUpdated toStr closeLoop values st)),
             right := right (fst (onDrawingUpdated toStr closeLoop values st)),
             drawingMode := False\<rparr>)
   \<and> (\<not> snd (onDrawingUpdated toStr closeLoop values st) \<longrightarrow>
        fst (onDrawingUpdated toStr closeLoop values st) = st)
   \<and> top (handleProductChange product checked st) = top st
   \<and> bottom (handleProductChange product checked st) = bottom st
   \<and> left (handleProductChange product checked st) = left st
   \<and> right (handleProductChange product checked st) = right st
   \<and> drawingMode (handleProductChange product checked st) = drawingMode st
   \<and> map_of (selectedProducts (handleProductChange product checked st)) product = Some checked
   \<and> (\<forall>other. other \<noteq> product \<longrightarrow>
        map_of (selectedProducts (handleProductChange product checked st)) other =
        map_of (selectedProducts st) other)
   \<and> (product \<in> set (map fst (selectedProducts st)) \<longrightarrow>
        map fst (selectedProducts (handleProductChange product checked st)) =
        map fst (selectedProducts st))"
  using onDrawingUpdated_result [of toStr closeLoop "values" st]
  by (simp add: onDrawingUpdated_frame handleProductChange_def map_of_setProperty keys_setProperty)

theorem handlers_frame_witness:
  "snd (onDrawingUpdated (\<lambda>_. []) True scenarioA scenarioB)
   \<and> fst (onDrawingUpdated (\<lambda>_. []) True scenarioA scenarioB) =
       scenarioB\<lparr>top := ''20.000000'', bottom := ''10.000000'', left := ''10.000000'',
         right := ''20.000000'', drawingMode := False\<rparr>
   \<and> \<not> snd (onDrawingUpdated (\<lambda>_. []) False scenarioA scenarioB)
   \<and> fst (onDrawingUpdated (\<lambda>_. []) False scenarioA scenarioB) = scenarioB
   \<and> ''tmc2'' \<in> set (map fst (selectedProducts scenarioB))
   \<and> ''tmc1'' \<noteq> ''tmc2''
   \<and> map_of (selectedProducts (handleProductChange ''tmc2'' True scenarioB)) ''tmc1'' = Some True
   \<and> map fst (selectedProducts (handleProductChange ''tmc2'' True scenarioB)) =
       [''tmc1'', ''tmc2'', ''ohrc'']"
proof -
  have a: "onDrawingUpdated (\<lambda>_. []) True scenarioA scenarioB =
      (scenarioB\<lparr>top := ''20.000000'', bottom := ''10.000000'', left := ''10.000000'',
         right := ''20.000000'', drawingMode := False\<rparr>, True)"
    by (simp add: onDrawingUpdated_def scenarioA_def Math_max_def Math_min_def
        toFixed6_twenty toFixed6_ten)
  have b: "\<not> snd (onDrawingUpdated (\<lambda>_. []) False scenarioA scenarioB)"
    by (simp add: onDrawingUpdated_def)
  have c: "''tmc2'' \<in> set (map fst (selectedProducts scenarioB))"
    and d: "map_of (selectedProducts scenarioB) ''tmc1'' = Some True"
    and e: "map fst (selectedProducts scenarioB) = [''tmc1'', ''tmc2'', ''ohrc'']"
    by (simp_all add: scenarioB_def)
  have f: "''tmc1'' \<noteq> ''tmc2''"
    by simp
  note h1 = handlers_frame [of "\<lambda>_. []" False scenarioA scenarioB "''tmc2''" True]
  from h1 b have g: "fst (onDrawingUpdated (\<lambda>_. []) False scenarioA scenarioB) = scenarioB"
    by blast
  from h1 c e have i: "map fst (selectedProducts (handleProductChange ''tmc2'' True scenarioB)) =
       [''tmc1'', ''tmc2'', ''ohrc'']"
    by simp
  from h1 f d have j: "map_of (selectedProducts (handleProductChange ''tmc2'' True scenarioB)) ''tmc1'' = Some True"
    by metis
  from a b c f g i j show ?thesis
    by simp
qed

section \<open>The initial state and the runs from it\<close>

lemma run_snoc: "run toStr (evs @ [e]) st = handle toStr e (run toStr evs st)"
  by (simp add: run_def)

lemma handleInputChange_selection:
  "selectedProducts (handleInputChange i v st) = selectedProducts st"
  by (cases i) simp_all

lemma handle_keeps_selected:
  assumes "map_of (selectedProducts st) k = Some True" and "e \<noteq> ProductChange k False"
  shows "map_of (selectedProducts (handle toStr e st)) k = Some True"
proof (cases e)
  case (ProductChange k' b)
  with assms show ?thesis
    by (cases b) (auto simp: handleProductChange_def map_of_setProperty)
qed (use assms in \<open>simp_all add: handleInputChange_selection activateDrawing_def
    onDrawingUpdated_frame onDrawingCleanUp_def queryGeoServer_state\<close>)

lemma run_keeps_selected:
  assumes "map_of (selectedProducts st) k = Some True" and "ProductChange k False \<notin> set evs"
  shows "map_of (selectedProducts (run toStr evs st)) k = Some True"
  using assms(2)
proof (induction evs rule: rev_induct)
  case Nil
  from assms(1) show ?case by (simp add: run_def)
next
  case (snoc e evs)
  then have "map_of (selectedProducts (run toStr evs st)) k = Some True"
    and "e \<noteq> ProductChange k False"
    by auto
  then show ?case
    unfolding run_snoc by (rule handle_keeps_selected)
qed

lemma productAlert_nothing_selected:
  assumes "snd (queryGeoServer st) = Alert productAlert"
  shows "map_of (selectedProducts st) k \<noteq> Some True"
proof -
  from assms have "selectedWorkspaces (selectedProducts st) = []"
    using alerts_differ by (auto simp: queryGeoServer_def split: if_splits)
  then show ?thesis
    by (simp add: selectedWorkspaces_empty_iff)
qed

text \<open>
  C9. The constructor selects all three products (\<open>tmc1\<close>, \<open>tmc2\<close>, \<open>ohrc\<close>) and
  leaves the four coordinate texts empty. In every run of the handlers from that state,
  the alert for an empty selection can only appear when, for each of the three products,
  the run contains a toggle that deselects it.
\<close>

theorem initialState_all_selected:
  "selectedProducts initialState = [(''tmc1'', True), (''tmc2'', True), (''ohrc'', True)]
   \<and> top initialState = '''' \<and> bottom initialState = ''''
   \<and> left initialState = '''' \<and> right initialState = ''''
   \<and> (snd (queryGeoServer (run toStr evs initialState)) = Alert productAlert \<longrightarrow>
        ProductChange ''tmc1'' False \<in> set evs
        \<and> ProductChange ''tmc2'' False \<in> set evs
        \<and> ProductChange ''ohrc'' False \<in> set evs)"
proof -
  have init: "map_of (selectedProducts initialState) ''tmc1'' = Some True"
    "map_of (selectedProducts initialState) ''tmc2'' = Some True"
    "map_of (selectedProducts initialState) ''ohrc'' = Some True"
    by (simp_all add: initialState_def)
  have "ProductChange k False \<in> set evs"
    if "snd (queryGeoServer (run toStr evs initialState)) = Alert productAlert"
      and "map_of (selectedProducts initialState) k = Some True" for k
  proof (rule ccontr)
    assume "ProductChange k False \<notin> set evs"
    with that(2) have "map_of (selectedProducts (run toStr evs initialState)) k = Some True"
      by (rule run_keeps_selected)
    with productAlert_nothing_selected [OF that(1)] show False
      by blast
  qed
  with init show ?thesis
    by (simp add: initialState_def)
qed

theorem initialState_all_selected_witness:
  "snd (queryGeoServer (run (\<lambda>_. [])
      [ProductChange ''tmc2'' False, DrawingUpdated True scenarioA, ProductChange ''ohrc'' False,
       ProductChange ''tmc1'' False] initialState)) = Alert productAlert
   \<and> ProductChange ''tmc1'' False \<in> set
      [ProductChange ''tmc2'' False, DrawingUpdated True scenarioA, ProductChange ''ohrc'' False,
       ProductChange ''tmc1'' False]
   \<and> snd (queryGeoServer (run (\<lambda>_. []) [DrawingUpdated True scenarioA] initialState)) \<noteq> Alert productAlert"
proof -
  have d: "fst (onDrawingUpdated (\<lambda>_. []) True scenarioA st) =
      st\<lparr>top := ''20.000000'', bottom := ''10.000000'', left := ''10.000000'',
         right := ''20.000000'', drawingMode := False\<rparr>" for st
    by (simp add: onDrawingUpdated_def scenarioA_def Math_max_def Math_min_def
        toFixed6_twenty toFixed6_ten)
  have a: "snd (queryGeoServer (run (\<lambda>_. [])
      [ProductChange ''tmc2'' False, DrawingUpdated True scenarioA, ProductChange ''ohrc'' False,
       ProductChange ''tmc1'' False] initialState)) = Alert productAlert"
    by (simp add: run_def d handleProductChange_def setProperty_def initialState_def
        queryGeoServer_def selectedWorkspaces_def)
  have b: "snd (queryGeoServer (run (\<lambda>_. []) [DrawingUpdated True scenarioA] initialState))
      \<noteq> Alert productAlert"
    by (simp add: run_def d initialState_def queryGeoServer_def selectedWorkspaces_def)
  from a initialState_all_selected
    [of "\<lambda>_. []" "[ProductChange ''tmc2'' False, DrawingUpdated True scenarioA,
       ProductChange ''ohrc'' False, ProductChange ''tmc1'' False]"]
  have "ProductChange ''tmc1'' False \<in> set
      [ProductChange ''tmc2'' False, DrawingUpdated True scenarioA, ProductChange ''ohrc'' False,
       ProductChange ''tmc1'' False]"
    by blast
  with a b show ?thesis by blast
qed

section \<open>Runs keep the order of the product ids\<close>

text \<open>
  The checkboxes of \<open>render\<close> toggle only the three ids of the initial selection, so
  along such runs the keys of the selection stay in their initial order, and two reached
  states whose selections agree as mappings hold the same object.
\<close>

lemma handle_keeps_keys:
  assumes "\<And>k b. e = ProductChange k b \<Longrightarrow> k \<in> set (map fst (selectedProducts st))"
  shows "map fst (selectedProducts (handle toStr e st)) = map fst (selectedProducts st)"
proof (cases e)
  case (ProductChange k b)
  with assms show ?thesis
    by (simp add: handleProductChange_def keys_setProperty)
qed (simp_all add: handleInputChange_selection activateDrawing_def
    onDrawingUpdated_frame onDrawingCleanUp_def queryGeoServer_state)

lemma run_keeps_keys:
  assumes "\<And>k b. ProductChange k b \<in> set evs \<Longrightarrow> k \<in> set [''tmc1'', ''tmc2'', ''ohrc'']"
  shows "map fst (selectedProducts (run toStr evs initialState)) = [''tmc1'', ''tmc2'', ''ohrc'']"
  using assms
proof (induction evs rule: rev_induct)
  case Nil
  show ?case by (simp add: run_def initialState_def)
next
  case (snoc e evs)
  have "\<And>k b. ProductChange k b \<in> set evs \<Longrightarrow> k \<in> set [''tmc1'', ''tmc2'', ''ohrc'']"
    using snoc.prems by auto
  then have ih: "map fst (selectedProducts (run toStr evs initialState)) = [''tmc1'', ''tmc2'', ''ohrc'']"
    by (rule snoc.IH)
  have "map fst (selectedProducts (handle toStr e (run toStr evs initialState))) =
      map fst (selectedProducts (run toStr evs initialState))"
  proof (rule handle_keeps_keys)
    fix k b assume "e = ProductChange k b"
    then have "k \<in> set [''tmc1'', ''tmc2'', ''ohrc'']"
      using snoc.prems [of k b] by simp
    then show "k \<in> set (map fst (selectedProducts (run toStr evs initialState)))"
      unfolding ih .
  qed
  with ih show ?case
    by (simp add: run_snoc)
qed

lemma three_keys_selection:
  assumes "map fst sp = [''tmc1'', ''tmc2'', ''ohrc'']" and "map fst sp' = [''tmc1'', ''tmc2'', ''ohrc'']"
    and "\<And>k. map_of sp k = map_of sp' k"
  shows "sp = sp'"
proof -
  from assms(1) obtain x y z where sp: "sp = [(''tmc1'', x), (''tmc2'', y), (''ohrc'', z)]"
    by (auto simp: map_eq_Cons_conv)
  from assms(2) obtain x' y' z' where sp': "sp' = [(''tmc1'', x'), (''tmc2'', y'), (''ohrc'', z')]"
    by (auto simp: map_eq_Cons_conv)
  from assms(3) [of "''tmc1''"] assms(3) [of "''tmc2''"] assms(3) [of "''ohrc''"]
  show ?thesis
    by (simp add: sp sp')
qed

lemma queryGeoServer_deterministic_runs:
  assumes "\<And>k b. ProductChange k b \<in> set evs \<Longrightarrow> k \<in> set [''tmc1'', ''tmc2'', ''ohrc'']"
    and "\<And>k b. ProductChange k b \<in> set evs' \<Longrightarrow> k \<in> set [''tmc1'', ''tmc2'', ''ohrc'']"
    and "top (run toStr evs initialState) = top (run toStr evs' initialState)"
    and "bottom (run toStr evs initialState) = bottom (run toStr evs' initialState)"
    and "left (run toStr evs initialState) = left (run toStr evs' initialState)"
    and "right (run toStr evs initialState) = right (run toStr evs' initialState)"
    and "\<And>k. map_of (selectedProducts (run toStr evs initialState)) k =
      map_of (selectedProducts (run toStr evs' initialState)) k"
  shows "snd (queryGeoServer (run toStr evs initialState)) =
    snd (queryGeoServer (run toStr evs' initialState))"
proof -
  have "selectedProducts (run toStr evs initialState) = selectedProducts (run toStr evs' initialState)"
    using run_keeps_keys [OF assms(1)] run_keeps_keys [OF assms(2)] assms(7)
    by (rule three_keys_selection)
  with assms(3-6) show ?thesis
    by (simp add: wktPolygon_def cqlFilter_def wfsUrl_def queryGeoServer_def)
qed

section \<open>Entities without a position\<close>

text \<open>
  The loop skips an entity whose position has no value. With a closed loop and at
  least three entities, the box is the one of the positions that have a value, and
  nothing is stored when none has.
\<close>

lemma forEachEntity_positions:
  "forEachEntity values (lats, lons) =
     (lats @ map fst (List.map_filter (\<lambda>e. e) values),
      lons @ map snd (List.map_filter (\<lambda>e. e) values))"
proof (induction "values" arbitrary: lats lons)
  case Nil
  show ?case by (simp add: List.map_filter_simps)
next
  case (Cons e es)
  show ?case
  proof (cases e)
    case None
    then show ?thesis by (simp add: Cons.IH List.map_filter_simps)
  next
    case (Some p)
    obtain lat lon where p: "p = (lat, lon)" by (cases p)
    show ?thesis by (simp add: Some p Cons.IH List.map_filter_simps)
  qed
qed

lemma onDrawingUpdated_positions:
  assumes "closeLoop" and "3 \<le> length values"
  shows "onDrawingUpdated toStr closeLoop values st =
    (case List.map_filter (\<lambda>e. e) values of
       [] \<Rightarrow> (st, False)
     | p # ps \<Rightarrow>
         (st\<lparr>top := toFixed toStr 6 (Max (fst ` set (p # ps))),
             bottom := toFixed toStr 6 (Min (fst ` set (p # ps))),
             left := toFixed toStr 6 (Min (snd ` set (p # ps))),
             right := toFixed toStr 6 (Max (snd ` set (p # ps))),
             drawingMode := False\<rparr>, True))"
proof (cases "List.map_filter (\<lambda>e. e) values")
  case Nil
  with assms show ?thesis
    using forEachEntity_positions [of "values" "[]" "[]"] by (simp add: onDrawingUpdated_def)
next
  case (Cons p ps)
  have s: "set (fst p # map fst ps) = fst ` set (p # ps)" "set (snd p # map snd ps) = snd ` set (p # ps)"
    by simp_all
  from Cons assms show ?thesis
    using forEachEntity_positions [of "values" "[]" "[]"]
    by (simp add: onDrawingUpdated_def Math_max_Max Math_min_Min s del: set_simps image_insert)
qed

end
